theory Spec2Isabelle
  imports Main
begin

section \<open>Python strings\<close>

text \<open>
  A Python \<^verbatim>\<open>str\<close> is a sequence of Unicode code points, and \<^verbatim>\<open>len\<close>, slicing,
  \<^verbatim>\<open>in\<close>, \<^verbatim>\<open>strip\<close> and \<^verbatim>\<open>split\<close> all work on code points. A string is therefore a
  list of code points (natural numbers), not a list of bytes. ASCII literals are written
  through \<open>str\<close>; the symbols of the source that lie outside ASCII are written as their
  code points.
\<close>

type_synonym pystr = "nat list"

definition str :: "string \<Rightarrow> pystr" where
  "str s = map of_char s"

text \<open>\<^verbatim>\<open>sub in s\<close>: \<open>sub\<close> occurs in \<open>s\<close> as a contiguous block.\<close>

fun py_in :: "'a list \<Rightarrow> 'a list \<Rightarrow> bool" where
  "py_in sub [] = (sub = [])"
| "py_in sub (c # cs) = (take (length sub) (c # cs) = sub \<or> py_in sub cs)"

text \<open>\<^verbatim>\<open>any(m in line for m in ms)\<close>\<close>

definition any_in :: "'a list list \<Rightarrow> 'a list \<Rightarrow> bool" where
  "any_in ms line = list_ex (\<lambda>m. py_in m line) ms"

definition startswith :: "'a list \<Rightarrow> 'a list \<Rightarrow> bool" where
  "startswith s p = (take (length p) s = p)"

definition endswith :: "'a list \<Rightarrow> 'a list \<Rightarrow> bool" where
  "endswith s p = (length p \<le> length s \<and> drop (length s - length p) s = p)"

text \<open>
  \<^verbatim>\<open>str.isspace\<close> of one code point: the ASCII white space and separators
  (9 to 13, 28 to 31, 32) and the Unicode white space beyond ASCII.
\<close>

definition py_isspace :: "nat \<Rightarrow> bool" where
  "py_isspace c = (c \<in> set [9, 10, 11, 12, 13, 28, 29, 30, 31, 32, 133, 160, 5760,
      8192, 8193, 8194, 8195, 8196, 8197, 8198, 8199, 8200, 8201, 8202,
      8232, 8233, 8239, 8287, 12288])"

text \<open>\<^verbatim>\<open>s.strip()\<close>, \<^verbatim>\<open>s.strip(chars)\<close> and \<^verbatim>\<open>s.lstrip(chars)\<close>\<close>

definition py_strip :: "pystr \<Rightarrow> pystr" where
  "py_strip s = rev (dropWhile py_isspace (rev (dropWhile py_isspace s)))"

definition py_strip_chars :: "pystr \<Rightarrow> pystr \<Rightarrow> pystr" where
  "py_strip_chars chars s =
     rev (dropWhile (\<lambda>c. c \<in> set chars) (rev (dropWhile (\<lambda>c. c \<in> set chars) s)))"

definition py_lstrip_chars :: "pystr \<Rightarrow> pystr \<Rightarrow> pystr" where
  "py_lstrip_chars chars s = dropWhile (\<lambda>c. c \<in> set chars) s"

text \<open>\<^verbatim>\<open>s.split(sep)\<close> for a separator of one code point: never an empty list.\<close>

fun py_split :: "'a \<Rightarrow> 'a list \<Rightarrow> 'a list list" where
  "py_split sep [] = [[]]"
| "py_split sep (c # cs) =
     (if c = sep then [] # py_split sep cs
      else (case py_split sep cs of [] \<Rightarrow> [[c]] | p # ps \<Rightarrow> (c # p) # ps))"

text \<open>
  Exceptions are values. \<open>AttributeError\<close> carries its message; \<open>Raised\<close> is any exception
  that comes out of code outside the repository (the generator, the arithmetic and the
  formatting of the request's values), with the text \<^verbatim>\<open>str(e)\<close> gives.

  \<^verbatim>\<open>xs[i]\<close>: a negative index counts from the end, and an index out of range raises
  \<^verbatim>\<open>IndexError\<close>.
\<close>

datatype pyexc = IndexError | AttributeError pystr | Raised pystr

definition py_index :: "'a list \<Rightarrow> int \<Rightarrow> pyexc + 'a" where
  "py_index xs i =
     (if 0 \<le> i \<and> i < int (length xs) then Inr (xs ! nat i)
      else if i < 0 \<and> - int (length xs) \<le> i then Inr (xs ! nat (int (length xs) + i))
      else Inl IndexError)"

text \<open>
  \<^verbatim>\<open>str.lower\<close> follows the Unicode case tables, which are no part of the repository:
  the parser takes the lower-casing function as its first argument, and the general
  theorems hold for every such function. \<open>ascii_lower\<close> is \<^verbatim>\<open>str.lower\<close> on strings
  whose cased characters are all ASCII; the concrete runs below use it on such strings.
\<close>

definition ascii_lower :: "pystr \<Rightarrow> pystr" where
  "ascii_lower s = map (\<lambda>c. if 65 \<le> c \<and> c \<le> 90 then c + 32 else c) s"

section \<open>The tables of \<^verbatim>\<open>parse_llm_output\<close>\<close>

definition dquote :: nat where "dquote = 34"
definition squote :: nat where "squote = 39"
definition newline :: nat where "newline = 10"
definition period :: nat where "period = 46"
definition space :: nat where "space = 32"

text \<open>Magnifying glass U+1F50D, light bulb U+1F4A1.\<close>

definition factors_markers :: "pystr list" where
  "factors_markers = [[128269], str ''KEY INSIGHTS'', str ''Key Insights'',
     str ''INSIGHTS:'', str ''Insights:'']"

definition recommendations_markers :: "pystr list" where
  "recommendations_markers = [[128161], str ''WELLNESS STRATEGY'', str ''PERSONALIZED'',
     str ''Recommendations:'', str ''RECOMMENDATIONS'']"

text \<open>Seedling U+1F331, direct hit U+1F3AF, flexed biceps U+1F4AA, and the double quote.\<close>

definition summary_markers :: "pystr list" where
  "summary_markers = [[127793], [127919], [128170], [dquote]]"

text \<open>Heavy horizontal line U+2501, bullet U+2022, check mark U+2713.\<close>

definition divider :: pystr where
  "divider = [9473]"

definition list_markers :: "pystr list" where
  "list_markers = [[8226], [10003], str ''-'', str ''1.'', str ''2.'', str ''3.'']"

definition bullet_chars :: pystr where
  "bullet_chars = str ''-*'' @ [8226, 10003] @ str ''123456789. ''"

definition factor_indicators :: "pystr list" where
  "factor_indicators = map str [''cholesterol'', ''blood pressure'', ''bp'', ''heart rate'',
     ''age'', ''mg/dl'', ''mmhg'', ''bpm'', ''angina'', ''risk'', ''indicates'', ''suggests'',
     ''combined'', ''relationship'', ''correlation'', ''physiological'']"

definition action_words :: "pystr list" where
  "action_words = map str [''reduce'', ''increase'', ''maintain'', ''monitor'', ''focus'',
     ''aim'', ''target'', ''consult'', ''track'', ''avoid'', ''include'', ''consider'',
     ''diet'', ''exercise'', ''lifestyle'', ''stress'', ''sodium'', ''physical'']"

definition medical_terms :: "pystr list" where
  "medical_terms = map str [''cholesterol'', ''pressure'', ''heart'', ''risk'', ''age'']"

definition default_explanation :: pystr where
  "default_explanation =
     str ''Cardiovascular risk assessment completed with detailed parameter analysis.''"

definition default_key_factors :: "pystr list" where
  "default_key_factors = map str
     [''Multiple cardiovascular parameters analyzed for risk correlation'',
      ''Blood pressure and lipid profile impact arterial health'',
      ''Age-related factors influence baseline cardiovascular risk'']"

definition default_recommendations :: "pystr list" where
  "default_recommendations = map str
     [''Focus on heart-healthy Mediterranean-style diet with emphasis on fiber and omega-3s'',
      ''Maintain consistent aerobic exercise (150 minutes weekly) to improve cardiovascular efficiency'',
      ''Regular monitoring of key biomarkers (BP, lipid panel) for trend analysis'']"

definition default_summary :: pystr where
  "default_summary =
     str ''Your cardiovascular health data provides actionable insights for risk management.''"

section \<open>The line scanner of \<^verbatim>\<open>parse_llm_output\<close>\<close>

datatype cursor = Explanation | Factors | Recommendations | Summary

text \<open>
  The four fields are the local variables of the function and the keys of the dictionary
  it returns; the scanner's state adds the section cursor.
\<close>

record fields =
  explanation :: pystr
  key_factors :: "pystr list"
  recommendations :: "pystr list"
  summary :: pystr

record scan_state = fields +
  current_section :: cursor

definition initial_state :: scan_state where
  "initial_state = \<lparr>explanation = [], key_factors = [], recommendations = [], summary = [],
     current_section = Explanation\<rparr>"

text \<open>\<^verbatim>\<open>lines = [l.strip() for l in text.split('\n') if l.strip()]\<close>\<close>

definition lines_of :: "pystr \<Rightarrow> pystr list" where
  "lines_of text = map py_strip (filter (\<lambda>l. py_strip l \<noteq> []) (py_split newline text))"

text \<open>\<^verbatim>\<open>line.startswith(divider) or line in ['', ' '] or len(line) < 5\<close>\<close>

definition is_noise :: "pystr \<Rightarrow> bool" where
  "is_noise line = (startswith line divider \<or> line \<in> set [[], [space]] \<or> length line < 5)"

text \<open>
  One pass of the loop body: the state after the line. Every \<^verbatim>\<open>continue\<close> of the source
  is a branch that returns the state at that point.
\<close>

definition scan_line :: "(pystr \<Rightarrow> pystr) \<Rightarrow> scan_state \<Rightarrow> pystr \<Rightarrow> scan_state" where
  "scan_line lower st line =
     (if any_in factors_markers line then st\<lparr>current_section := Factors\<rparr>
      else if any_in recommendations_markers line then st\<lparr>current_section := Recommendations\<rparr>
      else if any_in summary_markers line \<or> (startswith line [dquote] \<and> endswith line [dquote])
      then st\<lparr>current_section := Summary, summary := py_strip_chars [dquote, squote] line\<rparr>
      else if is_noise line then st
      else (case current_section st of
          Explanation \<Rightarrow>
            if length (explanation st) < 400 \<and> \<not> any_in list_markers line
            then st\<lparr>explanation := explanation st @ line @ [space]\<rparr> else st
        | Factors \<Rightarrow>
            (let cleaned = py_lstrip_chars bullet_chars line in
             if length cleaned > 15 \<and> any_in factor_indicators (lower cleaned)
             then st\<lparr>key_factors := key_factors st @ [cleaned]\<rparr> else st)
        | Recommendations \<Rightarrow>
            (let cleaned = py_lstrip_chars bullet_chars line in
             if length cleaned > 15 \<and> any_in action_words (lower cleaned)
             then st\<lparr>recommendations := recommendations st @ [cleaned]\<rparr> else st)
        | Summary \<Rightarrow> st))"

definition scan :: "(pystr \<Rightarrow> pystr) \<Rightarrow> scan_state \<Rightarrow> pystr list \<Rightarrow> scan_state" where
  "scan lower st ls = foldl (scan_line lower) st ls"

section \<open>The fallbacks of \<^verbatim>\<open>parse_llm_output\<close>\<close>

text \<open>\<^verbatim>\<open>[s.strip() for s in text.split('.') if len(s.strip()) > n]\<close>\<close>

definition sentences_over :: "nat \<Rightarrow> pystr \<Rightarrow> pystr list" where
  "sentences_over n text =
     map py_strip (filter (\<lambda>s. length (py_strip s) > n) (py_split period text))"

definition fallback_explanation :: "pystr \<Rightarrow> pystr \<Rightarrow> pyexc + pystr" where
  "fallback_explanation text e =
     (if e = [] \<or> length e < 50 then
        (let sentences = sentences_over 30 text in
         if text \<noteq> [] then
           (if sentences \<noteq> [] then
              (case py_index sentences 0 of Inl x \<Rightarrow> Inl x | Inr s \<Rightarrow> Inr (s @ [period]))
            else Inr (take 300 text))
         else Inr default_explanation)
      else Inr e)"

text \<open>
  The second look at all lines for key factors. The \<^verbatim>\<open>break\<close> stands inside the branch of
  a matching line, after the append.
\<close>

fun rescan_factors :: "(pystr \<Rightarrow> pystr) \<Rightarrow> pystr list \<Rightarrow> pystr list \<Rightarrow> pystr list" where
  "rescan_factors lower kf [] = kf"
| "rescan_factors lower kf (line # rest) =
     (if any_in medical_terms (lower line) \<and> length line > 20 then
        (let cleaned = py_lstrip_chars bullet_chars line;
             kf' = (if cleaned \<notin> set kf then kf @ [cleaned] else kf)
         in if length kf' \<ge> 3 then kf' else rescan_factors lower kf' rest)
      else rescan_factors lower kf rest)"

definition fallback_key_factors ::
    "(pystr \<Rightarrow> pystr) \<Rightarrow> pystr list \<Rightarrow> pystr list \<Rightarrow> pystr list" where
  "fallback_key_factors lower ls kf =
     (let kf1 = (if kf = [] \<or> length kf < 2 then rescan_factors lower kf ls else kf)
      in if kf1 = [] then default_key_factors else kf1)"

definition fallback_recommendations :: "pystr list \<Rightarrow> pystr list" where
  "fallback_recommendations rs =
     (if rs = [] \<or> length rs < 2 then default_recommendations else rs)"

definition fallback_summary :: "pystr \<Rightarrow> pystr \<Rightarrow> pyexc + pystr" where
  "fallback_summary text s =
     (if s = [] then
        (let sentences = sentences_over 20 text in
         if sentences \<noteq> [] then
           (case py_index sentences (- 1) of Inl x \<Rightarrow> Inl x | Inr l \<Rightarrow> Inr (l @ [period]))
         else Inr default_summary)
      else Inr s)"

section \<open>\<^verbatim>\<open>parse_llm_output\<close>\<close>

definition parse_llm_output :: "(pystr \<Rightarrow> pystr) \<Rightarrow> pystr \<Rightarrow> pyexc + fields" where
  "parse_llm_output lower text =
     (let ls = lines_of text;
          st = scan lower initial_state ls
      in case fallback_explanation text (explanation st) of
           Inl x \<Rightarrow> Inl x
         | Inr e \<Rightarrow>
             (let kf = fallback_key_factors lower ls (key_factors st);
                  rs = fallback_recommendations (recommendations st)
              in case fallback_summary text (summary st) of
                   Inl x \<Rightarrow> Inl x
                 | Inr s \<Rightarrow>
                     Inr \<lparr>explanation = take 500 (py_strip e),
                          key_factors = take 3 kf,
                          recommendations = take 3 rs,
                          summary = take 200 (py_strip s)\<rparr>))"

section \<open>The explain operation\<close>

text \<open>
  The request's \<^verbatim>\<open>inputs\<close> and \<^verbatim>\<open>prediction\<close> are dictionaries of arbitrary values
  (\<^verbatim>\<open>Dict[str, Any]\<close>), kept as association lists over a type \<open>'v\<close> of values. What Python
  does with such a value is given by \<open>builtins\<close>: \<^verbatim>\<open>v * 100\<close>, \<^verbatim>\<open>format(v, '.1f')\<close>,
  \<^verbatim>\<open>str(v)\<close>, and \<^verbatim>\<open>str.lower\<close>. The first two may raise.
\<close>

record 'v request =
  prompt :: "pystr option"
  inputs :: "(pystr \<times> 'v) list option"
  prediction :: "(pystr \<times> 'v) list option"
  include_recommendations :: "bool option"
  max_length :: "int option"

record 'v builtins =
  times_100 :: "'v \<Rightarrow> pyexc + 'v"
  format_1f :: "'v \<Rightarrow> pyexc + pystr"
  str_of :: "'v \<Rightarrow> pystr"
  str_lower :: "pystr \<Rightarrow> pystr"

text \<open>The risk is the literal \<^verbatim>\<open>0\<close> (also \<^verbatim>\<open>0 * 100\<close>) or a value computed from the request.\<close>

datatype 'v risk = Zero | Computed 'v

definition exc_message :: "pyexc \<Rightarrow> pystr" where
  "exc_message e = (case e of
       IndexError \<Rightarrow> str ''list index out of range''
     | AttributeError m \<Rightarrow> m
     | Raised m \<Rightarrow> m)"

text \<open>The message of \<^verbatim>\<open>None.get\<close>.\<close>

definition none_has_no_get :: pystr where
  "none_has_no_get = [squote] @ str ''NoneType'' @ [squote] @ str '' object has no attribute '' @
     [squote] @ str ''get'' @ [squote]"

text \<open>\<^verbatim>\<open>request.prediction.get('risk', 0) * 100 if request.prediction else 0\<close>\<close>

definition risk_of :: "'v builtins \<Rightarrow> 'v request \<Rightarrow> pyexc + 'v risk" where
  "risk_of b request =
     (case prediction request of
        None \<Rightarrow> Inr Zero
      | Some d \<Rightarrow>
          if d = [] then Inr Zero
          else (case map_of d (str ''risk'') of
                  None \<Rightarrow> Inr Zero
                | Some v \<Rightarrow> (case times_100 b v of Inl x \<Rightarrow> Inl x | Inr r \<Rightarrow> Inr (Computed r))))"

text \<open>\<^verbatim>\<open>{risk:.1f}\<close>\<close>

definition format_risk :: "'v builtins \<Rightarrow> 'v risk \<Rightarrow> pyexc + pystr" where
  "format_risk b r = (case r of Zero \<Rightarrow> Inr (str ''0.0'') | Computed v \<Rightarrow> format_1f b v)"

text \<open>\<^verbatim>\<open>{d.get(key)}\<close> for a dictionary \<open>d\<close>: a missing key is rendered as \<^verbatim>\<open>None\<close>.\<close>

definition render_get :: "'v builtins \<Rightarrow> (pystr \<times> 'v) list \<Rightarrow> pystr \<Rightarrow> pystr" where
  "render_get b d key = (case map_of d key of None \<Rightarrow> str ''None'' | Some v \<Rightarrow> str_of b v)"

text \<open>
  The \<^verbatim>\<open>else\<close> branch of the prompt selection in \<^verbatim>\<open>explain\<close>. The f-string evaluates and
  formats its fields from left to right, so the risk is formatted before
  \<^verbatim>\<open>request.inputs.get\<close> is looked up; with \<^verbatim>\<open>request.inputs\<close> being \<^verbatim>\<open>None\<close> that lookup
  raises \<^verbatim>\<open>AttributeError\<close>.
\<close>

definition basic_prompt :: "'v builtins \<Rightarrow> 'v request \<Rightarrow> pyexc + pystr" where
  "basic_prompt b request =
     (case risk_of b request of
        Inl x \<Rightarrow> Inl x
      | Inr risk \<Rightarrow>
          (case format_risk b risk of
             Inl x \<Rightarrow> Inl x
           | Inr risk_text \<Rightarrow>
               (case inputs request of
                  None \<Rightarrow> Inl (AttributeError none_has_no_get)
                | Some d \<Rightarrow>
                    Inr (str ''Explain heart risk of '' @ risk_text @
                         str ''% for patient age '' @ render_get b d (str ''age'') @
                         str '' with BP '' @ render_get b d (str ''restingBP'') @ str ''.''))))"

text \<open>\<^verbatim>\<open>if request.prompt: prompt = request.prompt else: ...\<close>\<close>

definition build_prompt :: "'v builtins \<Rightarrow> 'v request \<Rightarrow> pyexc + pystr" where
  "build_prompt b request =
     (case prompt request of
        None \<Rightarrow> basic_prompt b request
      | Some p \<Rightarrow> if p \<noteq> [] then Inr p else basic_prompt b request)"

text \<open>
  The service's state: the flag \<^verbatim>\<open>model_loaded\<close>, and the prompts the generator has been
  called with so far. The generator \<^verbatim>\<open>llm\<close> is opaque: a function from the prompt to the text
  \<^verbatim>\<open>response['choices'][0]['text']\<close>, or to the exception raised on the way.
\<close>

record service =
  model_loaded :: bool
  llm_calls :: "pystr list"

datatype http_error = HTTPException nat pystr

text \<open>
  The response carries the four fields and the model's name. The processing time is a
  difference of wall-clock readings and is left out.
\<close>

record response = fields +
  model_used :: pystr

definition failed :: "pyexc \<Rightarrow> http_error" where
  "failed e = HTTPException 500 (str ''Failed to generate explanation: '' @ exc_message e)"

definition explain ::
    "'v builtins \<Rightarrow> (pystr \<Rightarrow> pyexc + pystr) \<Rightarrow> service \<Rightarrow> 'v request \<Rightarrow>
       (http_error + response) \<times> service" where
  "explain b llm s request =
     (if \<not> model_loaded s then (Inl (HTTPException 503 (str ''Model not loaded'')), s)
      else (case build_prompt b request of
          Inl e \<Rightarrow> (Inl (failed e), s)
        | Inr p \<Rightarrow>
            (let s' = s\<lparr>llm_calls := llm_calls s @ [p]\<rparr> in
             case llm p of
               Inl e \<Rightarrow> (Inl (failed e), s')
             | Inr text \<Rightarrow>
                 (case parse_llm_output (str_lower b) (py_strip text) of
                    Inl e \<Rightarrow> (Inl (failed e), s')
                  | Inr parsed \<Rightarrow>
                      (Inr \<lparr>explanation = explanation parsed,
                            key_factors = key_factors parsed,
                            recommendations = recommendations parsed,
                            summary = summary parsed,
                            model_used = str ''deepseek-coder-1.3b-Q4_K_M-phase4.1''\<rparr>, s')))))"

section \<open>Predicates and inputs of the properties\<close>

text \<open>
  The third test of the \<^verbatim>\<open>if\<close>/\<^verbatim>\<open>elif\<close> chain of the loop body is reached only by a line
  that failed the first two: a line takes the summary branch exactly when \<open>is_summary_line\<close>
  holds of it.
\<close>

definition is_summary_line :: "pystr \<Rightarrow> bool" where
  "is_summary_line line =
     (\<not> any_in factors_markers line \<and> \<not> any_in recommendations_markers line \<and>
      (any_in summary_markers line \<or> (startswith line [dquote] \<and> endswith line [dquote])))"

text \<open>A line that takes none of the four \<^verbatim>\<open>continue\<close> statements reaches the section's code.\<close>

definition reaches_content :: "pystr \<Rightarrow> bool" where
  "reaches_content line =
     (\<not> any_in factors_markers line \<and> \<not> any_in recommendations_markers line \<and>
      \<not> (any_in summary_markers line \<or> (startswith line [dquote] \<and> endswith line [dquote])) \<and>
      \<not> is_noise line)"

text \<open>
  The specification's wording of two tests, to compare with the code's: a line that
  ``starts with a bullet glyph, dash, checkmark, or numbered-list prefix'', and a line that
  ``is wrapped in quotation marks, or contains any of a small set of motivational symbols''.
\<close>

definition spec_list_item :: "pystr \<Rightarrow> bool" where
  "spec_list_item line = list_ex (\<lambda>m. startswith line m) list_markers"

definition spec_summary_line :: "pystr \<Rightarrow> bool" where
  "spec_summary_line line =
     ((startswith line [dquote] \<and> endswith line [dquote]) \<or>
      any_in [[127793], [127919], [128170]] line)"

text \<open>The raw text of the specification's scenario, and the two lines it expects cleaned.\<close>

definition scenario_text :: pystr where
  "scenario_text = [128269] @ str '' KEY INSIGHTS'' @ [newline] @
     str ''- Elevated cholesterol indicates arterial risk'' @ [newline] @
     [128161] @ str '' Recommendations:'' @ [newline] @
     str ''- Reduce sodium intake and monitor blood pressure'' @ [newline, dquote] @
     str ''Stay heart healthy'' @ [dquote]"

definition cholesterol_line :: pystr where
  "cholesterol_line = str ''Elevated cholesterol indicates arterial risk''"

definition sodium_line :: pystr where
  "sodium_line = str ''Reduce sodium intake and monitor blood pressure''"


definition prose_line :: pystr where
  "prose_line = str ''Your heart shows elevated readings''"

definition hyphen_line :: pystr where
  "hyphen_line = str ''Risk is well-controlled now''"

text \<open>A line of prose with a quoted word inside: \<^verbatim>\<open>Aim for "good" levels\<close>.\<close>

definition inner_quote_line :: pystr where
  "inner_quote_line = str ''Aim for '' @ [dquote] @ str ''good'' @ [dquote] @ str '' levels''"

definition empty_request :: "'v request" where
  "empty_request = \<lparr>prompt = None, inputs = None, prediction = None,
     include_recommendations = Some True, max_length = Some 400\<rparr>"

section \<open>Basic facts\<close>

lemmas tables = factors_markers_def recommendations_markers_def summary_markers_def
  divider_def list_markers_def bullet_chars_def factor_indicators_def action_words_def
  medical_terms_def default_explanation_def default_key_factors_def
  default_recommendations_def default_summary_def dquote_def squote_def newline_def
  period_def space_def

lemmas prims = str_def any_in_def startswith_def endswith_def py_isspace_def py_strip_def
  py_strip_chars_def py_lstrip_chars_def ascii_lower_def

lemma py_index_first: "xs \<noteq> [] \<Longrightarrow> py_index xs 0 = Inr (hd xs)"
  by (cases xs) (simp_all add: py_index_def)

lemma py_index_last: "xs \<noteq> [] \<Longrightarrow> py_index xs (- 1) = Inr (last xs)"
  by (cases xs rule: rev_cases) (simp_all add: py_index_def nth_append)

text \<open>Both indexings are guarded by the list being non-empty, so neither fallback raises.\<close>

lemma fallback_explanation_Inr:
  "fallback_explanation text e =
     Inr (if e = [] \<or> length e < 50 then
            (if text \<noteq> [] then
               (if sentences_over 30 text \<noteq> [] then hd (sentences_over 30 text) @ [period]
                else take 300 text)
             else default_explanation)
          else e)"
  by (simp add: fallback_explanation_def Let_def py_index_first)

lemma fallback_summary_Inr:
  "fallback_summary text s =
     Inr (if s = [] then
            (if sentences_over 20 text \<noteq> [] then last (sentences_over 20 text) @ [period]
             else default_summary)
          else s)"
  by (simp add: fallback_summary_def Let_def py_index_last)

lemma parse_llm_output_Inr:
  "\<exists>e s. fallback_explanation text (explanation (scan lower initial_state (lines_of text))) = Inr e \<and>
         fallback_summary text (summary (scan lower initial_state (lines_of text))) = Inr s \<and>
         parse_llm_output lower text =
           Inr \<lparr>explanation = take 500 (py_strip e),
                key_factors = take 3 (fallback_key_factors lower (lines_of text)
                  (key_factors (scan lower initial_state (lines_of text)))),
                recommendations = take 3 (fallback_recommendations
                  (recommendations (scan lower initial_state (lines_of text)))),
                summary = take 200 (py_strip s)\<rparr>"
  by (simp add: parse_llm_output_def Let_def fallback_explanation_Inr fallback_summary_Inr)

lemma length_default_recommendations: "length default_recommendations = 3"
  by (simp add: default_recommendations_def)


lemma scan_Nil: "scan lower st [] = st"
  by (simp add: scan_def)

lemma scan_Cons: "scan lower st (l # ls) = scan lower (scan_line lower st l) ls"
  by (simp add: scan_def)


lemma summary_scan_line:
  "summary (scan_line lower st line) =
     (if is_summary_line line then py_strip_chars [dquote, squote] line else summary st)"
  by (simp add: scan_line_def is_summary_line_def Let_def split: cursor.split)

lemma wrapped_contains_dquote: "startswith line [dquote] \<Longrightarrow> any_in summary_markers line"
  by (cases line) (simp_all add: startswith_def any_in_def summary_markers_def)

subsection \<open>Runs on the concrete inputs\<close>

lemma lines_of_scenario:
  "lines_of scenario_text = [[128269] @ str '' KEY INSIGHTS'',
     str ''- Elevated cholesterol indicates arterial risk'',
     [128161] @ str '' Recommendations:'',
     str ''- Reduce sodium intake and monitor blood pressure'',
     [dquote] @ str ''Stay heart healthy'' @ [dquote]]"
  by (simp add: scenario_text_def lines_of_def tables prims)

lemma scan_scenario:
  "scan ascii_lower initial_state (lines_of scenario_text) =
     \<lparr>explanation = [], key_factors = [cholesterol_line],
      recommendations = [sodium_line],
      summary = str ''Stay heart healthy'', current_section = Summary\<rparr>"
  unfolding lines_of_scenario
  by (simp add: scan_def scan_line_def initial_state_def is_noise_def tables prims
      cholesterol_line_def sodium_line_def)

lemma sodium_not_default: "sodium_line \<notin> set default_recommendations"
  by (simp add: sodium_line_def default_recommendations_def str_def)



lemma prose_line_content: "reaches_content prose_line \<and> \<not> any_in list_markers prose_line"
  by (simp add: reaches_content_def is_noise_def prose_line_def tables prims)

lemma hyphen_line_content: "reaches_content hyphen_line \<and> \<not> spec_list_item hyphen_line"
  by (simp add: reaches_content_def is_noise_def spec_list_item_def hyphen_line_def tables prims)


section \<open>The properties of \<^verbatim>\<open>parse_llm_output\<close>\<close>

text \<open>
  C1. Every raw text is said to give a non-empty explanation and summary and at least one
  key factor and one recommendation. The code breaks this on the text made of a double
  quote, a space and a double quote, which \<^verbatim>\<open>explain\<close> can pass on as it is already
  stripped: the line is taken as the summary, stripping its quotes leaves one space, which
  is not empty, so no fallback applies; the final \<^verbatim>\<open>strip\<close> then returns the empty summary.
\<close>

theorem empty_summary_for_quoted_blank:
  "parse_llm_output ascii_lower [dquote, space, dquote] =
     Inr \<lparr>explanation = [dquote, space, dquote], key_factors = default_key_factors,
          recommendations = default_recommendations, summary = []\<rparr>"
  by (simp add: parse_llm_output_def lines_of_def scan_def scan_line_def initial_state_def
      is_noise_def fallback_explanation_def fallback_key_factors_def
      fallback_recommendations_def fallback_summary_def sentences_over_def
      py_index_def Let_def tables prims)

text \<open>
  C2. For every raw text the function returns a result, whose explanation has at most 500
  characters, whose summary has at most 200, and whose key factors and recommendations
  have at most 3 entries each.
\<close>

theorem parse_llm_output_bounds:
  "\<exists>r. parse_llm_output lower text = Inr r \<and> length (explanation r) \<le> 500 \<and>
       length (summary r) \<le> 200 \<and> length (key_factors r) \<le> 3 \<and>
       length (recommendations r) \<le> 3"
proof -
  obtain e s where "parse_llm_output lower text =
      Inr \<lparr>explanation = take 500 (py_strip e),
           key_factors = take 3 (fallback_key_factors lower (lines_of text)
             (key_factors (scan lower initial_state (lines_of text)))),
           recommendations = take 3 (fallback_recommendations
             (recommendations (scan lower initial_state (lines_of text)))),
           summary = take 200 (py_strip s)\<rparr>"
    using parse_llm_output_Inr [of _ lower] by blast
  then show ?thesis by simp
qed

text \<open>The bounds on the scenario's text.\<close>

theorem parse_llm_output_bounds_witness:
  "\<exists>r. parse_llm_output ascii_lower scenario_text = Inr r \<and> length (explanation r) \<le> 500 \<and>
       length (summary r) \<le> 200 \<and> length (key_factors r) \<le> 3 \<and>
       length (recommendations r) \<le> 3"
  by (rule parse_llm_output_bounds)

text \<open>
  C3 as stated fails: on the scenario's text the scan captures the one cleaned sodium line
  as a recommendation, and the returned recommendations are the three fixed ones, without
  that line. No second look at the lines exists for recommendations.
\<close>

theorem scenario_recommendations_counterexample:
  "recommendations (scan ascii_lower initial_state (lines_of scenario_text)) = [sodium_line] \<and>
   map_sum id recommendations (parse_llm_output ascii_lower scenario_text) =
     Inr default_recommendations \<and>
   sodium_line \<notin> set default_recommendations"
proof -
  obtain e s where "parse_llm_output ascii_lower scenario_text =
      Inr \<lparr>explanation = take 500 (py_strip e),
           key_factors = take 3 (fallback_key_factors ascii_lower (lines_of scenario_text)
             (key_factors (scan ascii_lower initial_state (lines_of scenario_text)))),
           recommendations = take 3 (fallback_recommendations
             (recommendations (scan ascii_lower initial_state (lines_of scenario_text)))),
           summary = take 200 (py_strip s)\<rparr>"
    using parse_llm_output_Inr [of scenario_text ascii_lower] by blast
  then have "map_sum id recommendations (parse_llm_output ascii_lower scenario_text) =
      Inr default_recommendations"
    by (simp add: scan_scenario fallback_recommendations_def length_default_recommendations)
  then show ?thesis
    by (simp add: scan_scenario sodium_not_default)
qed

text \<open>
  C3, amended. Whenever the scan captures fewer than 2 recommendations, the returned
  recommendations are the fixed list of three: one tier, which replaces whatever was
  captured; on the scenario's text the returned recommendations are that list.
\<close>

theorem recommendations_fallback_single_tier:
  assumes "length (recommendations (scan lower initial_state (lines_of text))) < 2"
  shows "\<exists>r. parse_llm_output lower text = Inr r \<and> recommendations r = default_recommendations"
proof -
  let ?rs = "recommendations (scan lower initial_state (lines_of text))"
  obtain e s where p: "parse_llm_output lower text =
      Inr \<lparr>explanation = take 500 (py_strip e),
           key_factors = take 3 (fallback_key_factors lower (lines_of text)
             (key_factors (scan lower initial_state (lines_of text)))),
           recommendations = take 3 (fallback_recommendations ?rs),
           summary = take 200 (py_strip s)\<rparr>"
    using parse_llm_output_Inr [of _ lower] by blast
  from assms have "take 3 (fallback_recommendations ?rs) = default_recommendations"
    by (simp add: fallback_recommendations_def length_default_recommendations)
  with p show ?thesis by simp
qed

text \<open>The scenario's text has one captured recommendation, and gets the fixed list.\<close>

theorem recommendations_fallback_single_tier_witness:
  "length (recommendations (scan ascii_lower initial_state (lines_of scenario_text))) < 2 \<and>
   (\<exists>r. parse_llm_output ascii_lower scenario_text = Inr r \<and>
        recommendations r = default_recommendations)"
proof -
  have h: "length (recommendations (scan ascii_lower initial_state (lines_of scenario_text))) < 2"
    by (simp add: scan_scenario)
  show ?thesis
    using h recommendations_fallback_single_tier [OF h] by simp
qed

text \<open>
  C4. The function is total and deterministic: for every raw text there is exactly one
  result, and it is a value, not an exception. The two indexings that could raise are
  guarded, and the result depends on nothing but the text and the case tables.
\<close>

theorem parse_llm_output_total:
  "\<exists>!r. parse_llm_output lower text = Inr r"
  using parse_llm_output_Inr [of _ lower] by auto

text \<open>Totality on the empty text.\<close>

theorem parse_llm_output_total_witness:
  "\<exists>!r. parse_llm_output ascii_lower [] = Inr r"
  by (rule parse_llm_output_total)




text \<open>
  C7 as stated fails: \<^verbatim>\<open>Risk is well-controlled now\<close> starts with no bullet, dash, check
  mark or number, reaches the Explanation section with an empty buffer, and is dropped,
  because the code looks for the glyphs anywhere in the line and the line has a hyphen.
\<close>

theorem hyphen_line_dropped_counterexample:
  "current_section initial_state = Explanation \<and> length (explanation initial_state) < 400 \<and>
   reaches_content hyphen_line \<and> \<not> spec_list_item hyphen_line \<and>
   scan_line ascii_lower initial_state hyphen_line = initial_state"
proof -
  have "scan_line ascii_lower initial_state hyphen_line = initial_state"
    by (simp add: scan_line_def initial_state_def is_noise_def hyphen_line_def tables prims)
  then show ?thesis
    using hyphen_line_content by (simp add: initial_state_def)
qed

text \<open>
  C7, amended. A line that reaches the Explanation section's code (it matched no marker and
  was not filtered as noise) is appended to the buffer, with a space after it, if and only
  if the buffer has fewer than 400 characters and the line contains, at any position, none
  of the bullet, the check mark, the hyphen, \<^verbatim>\<open>1.\<close>, \<^verbatim>\<open>2.\<close> and \<^verbatim>\<open>3.\<close>; otherwise the
  state is unchanged: the line is dropped.
\<close>

theorem explanation_line_appended:
  assumes "current_section st = Explanation" and "reaches_content line"
  shows "scan_line lower st line =
           (if length (explanation st) < 400 \<and> \<not> any_in list_markers line
            then st\<lparr>explanation := explanation st @ line @ [space]\<rparr> else st) \<and>
         (explanation (scan_line lower st line) = explanation st @ line @ [space] \<longleftrightarrow>
           length (explanation st) < 400 \<and> \<not> any_in list_markers line)"
proof -
  from assms have step: "scan_line lower st line =
      (if length (explanation st) < 400 \<and> \<not> any_in list_markers line
       then st\<lparr>explanation := explanation st @ line @ [space]\<rparr> else st)"
    unfolding scan_line_def reaches_content_def by auto
  then show ?thesis by simp
qed

text \<open>A line of prose is appended to the empty buffer.\<close>

theorem explanation_line_appended_witness:
  "current_section initial_state = Explanation \<and> reaches_content prose_line \<and>
   scan_line ascii_lower initial_state prose_line =
     initial_state\<lparr>explanation := prose_line @ [space]\<rparr>"
proof -
  have c: "current_section initial_state = Explanation"
    by (simp add: initial_state_def)
  have r: "reaches_content prose_line"
    using prose_line_content by simp
  have "\<not> any_in list_markers prose_line"
    using prose_line_content by simp
  with explanation_line_appended [OF c r, of ascii_lower] c r show ?thesis
    by (simp add: initial_state_def)
qed

text \<open>
  C8 as stated fails: the line \<^verbatim>\<open>Aim for "good" levels\<close> is not wrapped in quotation marks
  and contains none of the motivational symbols, and it matches no factors marker and no
  recommendations marker, so that it reaches the summary test. Yet it is captured as the
  summary, because the code's symbol list holds the bare double quote: the scan assigns the
  whole line and moves the cursor to Summary, and the parser returns the line as the
  summary of the text that consists of it.
\<close>

theorem inner_quote_captured_counterexample:
  "\<not> spec_summary_line inner_quote_line \<and>
   \<not> any_in factors_markers inner_quote_line \<and>
   \<not> any_in recommendations_markers inner_quote_line \<and>
   scan_line ascii_lower initial_state inner_quote_line =
     initial_state\<lparr>summary := inner_quote_line, current_section := Summary\<rparr> \<and>
   (\<exists>r. parse_llm_output ascii_lower inner_quote_line = Inr r \<and> summary r = inner_quote_line)"
  by (simp add: inner_quote_line_def spec_summary_line_def scan_line_def initial_state_def
        parse_llm_output_def lines_of_def scan_def fallback_explanation_def
        fallback_key_factors_def fallback_recommendations_def fallback_summary_def
        sentences_over_def Let_def tables prims)

text \<open>
  C8, amended. A scanned line is captured as the summary exactly when it matches no factors
  marker and no recommendations marker and contains, at any position, a double quote or one
  of the three motivational symbols (which covers every line wrapped in double quotes).
  The capture strips double and single quotes from both ends and is unconditional: after
  the scan the summary variable is the stripped last such line, and is unchanged when
  there is none.
\<close>

theorem summary_last_wins:
  "summary (scan lower st ls) =
     (if filter is_summary_line ls = [] then summary st
      else py_strip_chars [dquote, squote] (last (filter is_summary_line ls))) \<and>
   is_summary_line line =
     (\<not> any_in factors_markers line \<and> \<not> any_in recommendations_markers line \<and>
      any_in summary_markers line)"
proof
  show "summary (scan lower st ls) =
     (if filter is_summary_line ls = [] then summary st
      else py_strip_chars [dquote, squote] (last (filter is_summary_line ls)))"
  proof (induction ls arbitrary: st)
    case Nil
    show ?case by (simp add: scan_Nil)
  next
    case (Cons l ls)
    show ?case
      by (simp add: scan_Cons Cons.IH summary_scan_line)
  qed
next
  show "is_summary_line line =
     (\<not> any_in factors_markers line \<and> \<not> any_in recommendations_markers line \<and>
      any_in summary_markers line)"
    using wrapped_contains_dquote [of line] by (auto simp add: is_summary_line_def)
qed

text \<open>Of two quoted lines the second is the summary after the scan.\<close>

theorem summary_last_wins_witness:
  "summary (scan ascii_lower initial_state
      [[dquote] @ str ''Stay heart healthy'' @ [dquote],
       [dquote] @ str ''Keep moving every day'' @ [dquote]]) = str ''Keep moving every day''"
proof -
  have f: "filter is_summary_line
      [[dquote] @ str ''Stay heart healthy'' @ [dquote],
       [dquote] @ str ''Keep moving every day'' @ [dquote]] =
      [[dquote] @ str ''Stay heart healthy'' @ [dquote],
       [dquote] @ str ''Keep moving every day'' @ [dquote]]"
    by (simp add: is_summary_line_def tables prims)
  have "summary (scan ascii_lower initial_state
      [[dquote] @ str ''Stay heart healthy'' @ [dquote],
       [dquote] @ str ''Keep moving every day'' @ [dquote]]) =
      py_strip_chars [dquote, squote] ([dquote] @ str ''Keep moving every day'' @ [dquote])"
    using summary_last_wins [of ascii_lower initial_state
      "[[dquote] @ str ''Stay heart healthy'' @ [dquote],
        [dquote] @ str ''Keep moving every day'' @ [dquote]]" "[]"]
    unfolding f by simp
  then show ?thesis by (simp add: tables prims)
qed



section \<open>The properties of \<^verbatim>\<open>explain\<close>\<close>

text \<open>
  C6. A request with no prompt, no inputs and no prediction is said to give a prompt with
  risk 0 and the patient's parameters rendered as absent. The code reads the risk as 0,
  as it tests \<^verbatim>\<open>request.prediction\<close> first, but calls \<^verbatim>\<open>request.inputs.get\<close> untested:
  building the prompt raises \<^verbatim>\<open>AttributeError\<close>, and with the model loaded the operation
  answers with status 500 and never calls the generator.
\<close>

theorem explain_empty_request_fails:
  "build_prompt b empty_request = Inl (AttributeError none_has_no_get) \<and>
   explain b llm \<lparr>model_loaded = True, llm_calls = []\<rparr> empty_request =
     (Inl (HTTPException 500 (str ''Failed to generate explanation: '' @ none_has_no_get)),
      \<lparr>model_loaded = True, llm_calls = []\<rparr>)"
proof -
  have bp: "build_prompt b empty_request = Inl (AttributeError none_has_no_get)"
    by (simp add: build_prompt_def basic_prompt_def risk_of_def format_risk_def empty_request_def)
  then show ?thesis
    by (simp add: explain_def failed_def exc_message_def)
qed

text \<open>
  C9. When the model is not loaded, \<^verbatim>\<open>explain\<close> answers at once with status 503, the
  unavailable backend: the state is unchanged, so no prompt was handed to the generator.
\<close>

theorem explain_rejects_when_not_loaded:
  assumes "\<not> model_loaded s"
  shows "explain b llm s request = (Inl (HTTPException 503 (str ''Model not loaded'')), s)"
  using assms by (simp add: explain_def)

text \<open>A service that never loaded its model, for every generator and request.\<close>

theorem explain_rejects_when_not_loaded_witness:
  "\<forall>b llm request. \<not> model_loaded \<lparr>model_loaded = False, llm_calls = []\<rparr> \<and>
     explain b llm \<lparr>model_loaded = False, llm_calls = []\<rparr> request =
       (Inl (HTTPException 503 (str ''Model not loaded'')),
        \<lparr>model_loaded = False, llm_calls = []\<rparr>)"
proof -
  have h: "\<not> model_loaded \<lparr>model_loaded = False, llm_calls = []\<rparr>" by simp
  show ?thesis
    using h explain_rejects_when_not_loaded [OF h] by blast
qed

end
